theory Spec2Isabelle
  imports Main "HOL-Library.Sublist"
begin

section \<open>ShinySDR: exporting state objects over HTTP (shinysdr/i/network/export\_http.py)\<close>

text \<open>
  The module mirrors a tree of blocks and cells onto a tree of HTTP resources. The
  embedding keeps the Python objects in explicit stores: blocks, cells and block resources
  are addressed by their object identity, dictionaries are maps, every effect on the
  request, on the model or on the notification sink is appended to a log in program
  order, and every raise is a value of type \<open>exn\<close> returned together with the state
  reached when it was raised.
\<close>

subsection \<open>Values and exceptions\<close>

datatype json =
    JNull
  | JBool bool
  | JNum int
  | JStr string
  | JArr "json list"
  | JObj "(string \<times> json) list"

datatype exn =
    NotImplementedError
  | Exception string
  | AssertionError
  | ValueError
  | ModelError string

subsection \<open>The exported object model\<close>

type_synonym block_id = nat
type_synonym vcell_id = nat
type_synonym bcell_id = nat
type_synonym res_id = nat

text \<open>
  A cell object is a value cell or a block cell for its whole life (\<open>isBlock()\<close> depends
  on the cell's class), so the two kinds have separate stores.
\<close>

datatype cell = ValueCell vcell_id | BlockCell bcell_id

fun isBlock :: "cell \<Rightarrow> bool" where
  "isBlock (ValueCell _) = False"
| "isBlock (BlockCell _) = True"

text \<open>
  Where the module tests \<open>cell.isBlock()\<close> and then uses the cell, the embedding matches
  on the constructor: the pattern \<open>BlockCell c\<close> is the branch where the test is true.
\<close>

text \<open>
  Modelled from the spec: the cell classes (shinysdr.values) are not part of the module.
  A value cell holds a value; its setter either rejects the new value (\<open>None\<close>, the
  exception is propagated) or stores the value it returns.
\<close>

record vcell =
  vc_value :: json
  vc_setter :: "json \<Rightarrow> json option"

text \<open>
  Modelled from the spec: a block has the flag answered by \<open>state_is_dynamic()\<close>, the
  dictionary answered by \<open>state()\<close> (as the list of its items, keys distinct), and
  provides the interface \<open>IWritableCollection\<close> or not.
\<close>

record block =
  b_state_is_dynamic :: bool
  b_state :: "(string \<times> cell) list"
  b_writable_collection :: bool

record world =
  w_blocks :: "block_id \<Rightarrow> block"
  w_vcells :: "vcell_id \<Rightarrow> vcell"
  w_bcells :: "bcell_id \<Rightarrow> block_id"

definition vcell_get :: "world \<Rightarrow> vcell_id \<Rightarrow> json" where
  "vcell_get w c = vc_value (w_vcells w c)"

definition vcell_set :: "vcell_id \<Rightarrow> json \<Rightarrow> world \<Rightarrow> (exn + unit) \<times> world" where
  "vcell_set c v w =
     (case vc_setter (w_vcells w c) v of
        None \<Rightarrow> (Inl (ModelError ''set rejected''), w)
      | Some v' \<Rightarrow> (Inr (), w\<lparr>w_vcells := (w_vcells w)(c := (w_vcells w c)\<lparr>vc_value := v'\<rparr>)\<rparr>))"

definition bcell_get :: "world \<Rightarrow> bcell_id \<Rightarrow> block_id" where
  "bcell_get w c = w_bcells w c"

definition state_is_dynamic :: "world \<Rightarrow> block_id \<Rightarrow> bool" where
  "state_is_dynamic w b = b_state_is_dynamic (w_blocks w b)"

definition block_state :: "world \<Rightarrow> block_id \<Rightarrow> (string \<times> cell) list" where
  "block_state w b = b_state (w_blocks w b)"

definition IWritableCollection_providedBy :: "world \<Rightarrow> block_id \<Rightarrow> bool" where
  "IWritableCollection_providedBy w b = b_writable_collection (w_blocks w b)"

subsection \<open>Requests, effects and collaborators\<close>

record request =
  rq_getHeader :: "string \<Rightarrow> string option"
  rq_content :: string
  rq_prepath :: "string list"
  rq_prePathURL :: string

datatype event =
    NoteDirty
  | ContentRead
  | CellSet vcell_id json
  | ChildCreated block_id string
  | ChildDeleted block_id string
  | SetResponseCode nat
  | SetHeader string string
  | ResponseWrite string
  | ResponseFinish
  | SpawnProcess string "string list"
  | PipeWrite nat string
  | PipeLoseConnection nat

datatype element = BlockHtmlElement

text \<open>
  What a template tag can hold: strings and lists of such. \<open>Tag.__call__\<close> appends its
  arguments to the children of the tag.
\<close>

datatype flattenable = FStr string | FList "flattenable list"

record tag =
  tg_children :: "flattenable list"

definition tag_call :: "tag \<Rightarrow> flattenable list \<Rightarrow> tag" where
  "tag_call t children = t\<lparr>tg_children := tg_children t @ children\<rparr>"

record html_document =
  doc_title :: tag
  doc_state_url :: tag

text \<open>
  What the module imports and calls but does not define: the JSON codec, Python's
  \<open>str\<close>, the model's operations on collections and its descriptions, the two slots of
  the template file and the flattening of a filled template into bytes. They are
  parameters of the handlers.
\<close>

record collab =
  json_loads :: "string \<Rightarrow> json option"
  serialize :: "json \<Rightarrow> string"
  py_str :: "json \<Rightarrow> string"
  state_description :: "world \<Rightarrow> block_id \<Rightarrow> json"
  create_child :: "block_id \<Rightarrow> json \<Rightarrow> world \<Rightarrow> (exn + string) \<times> world"
  delete_child :: "block_id \<Rightarrow> string \<Rightarrow> world \<Rightarrow> (exn + unit) \<times> world"
  given_deleter :: "world \<Rightarrow> (exn + unit) \<times> world"
  template_title :: tag
  template_state_url :: tag
  flatten_document :: "html_document \<Rightarrow> string"
  dot_graph :: "world \<Rightarrow> block_id \<Rightarrow> string"
  make_websocket_url :: "request \<Rightarrow> string \<Rightarrow> string"
  prepath_escaped :: "request \<Rightarrow> string"

subsection \<open>Resources and the state of the server\<close>

datatype cell_resource_class = CellResource | ValueCellResource

record cell_resource =
  cr_class :: cell_resource_class
  cr_cell :: vcell_id

text \<open>
  A deletion closure: the one made by \<open>__makeChildBlockResource\<close> captures the parent
  resource and the child's name; the one of a root resource is given by its creator.
\<close>

datatype deleter = ChildDeleter res_id string | GivenDeleter

record block_resource =
  br_block :: block_id
  br_deleteSelf :: deleter
  br_dynamic :: bool
  br_blockResourceCache :: "block_id \<rightharpoonup> res_id"
  br_blockCells :: "string \<rightharpoonup> bcell_id"
  br_children :: "string \<rightharpoonup> cell_resource"

record state =
  st_world :: world
  st_resources :: "res_id \<Rightarrow> block_resource"
  st_next :: res_id
  st_log :: "event list"

datatype render_result = Body string | NOT_DONE_YET

definition emit :: "event \<Rightarrow> state \<Rightarrow> state" where
  "emit e s = s\<lparr>st_log := st_log s @ [e]\<rparr>"

definition note_dirty :: "state \<Rightarrow> state" where
  "note_dirty s = emit NoteDirty s"

subsection \<open>Cell resources\<close>

fun grparse :: "collab \<Rightarrow> cell_resource_class \<Rightarrow> string \<Rightarrow> exn + json" where
  "grparse X CellResource value = Inl NotImplementedError"
| "grparse X ValueCellResource value =
     (case json_loads X value of None \<Rightarrow> Inl ValueError | Some v \<Rightarrow> Inr v)"

fun grrender :: "collab \<Rightarrow> cell_resource_class \<Rightarrow> json \<Rightarrow> request \<Rightarrow> string" where
  "grrender X CellResource value request = py_str X value"
| "grrender X ValueCellResource value request = serialize X value"

definition cell_render_GET ::
  "collab \<Rightarrow> cell_resource \<Rightarrow> request \<Rightarrow> state \<Rightarrow> (exn + render_result) \<times> state" where
  "cell_render_GET X self request s =
     (Inr (Body (grrender X (cr_class self) (vcell_get (st_world s) (cr_cell self)) request)), s)"

definition cell_render_PUT ::
  "collab \<Rightarrow> cell_resource \<Rightarrow> request \<Rightarrow> state \<Rightarrow> (exn + render_result) \<times> state" where
  "cell_render_PUT X self request s =
     (let data = rq_content request;
          s1 = emit ContentRead s
      in case grparse X (cr_class self) data of
           Inl e \<Rightarrow> (Inl e, s1)
         | Inr v \<Rightarrow>
             (case vcell_set (cr_cell self) v (st_world s1) of
                (Inl e, w) \<Rightarrow> (Inl e, s1\<lparr>st_world := w\<rparr>)
              | (Inr u, w) \<Rightarrow>
                  (let s2 = emit (CellSet (cr_cell self) v) (s1\<lparr>st_world := w\<rparr>);
                       s3 = emit (SetResponseCode 204) s2;
                       s4 = note_dirty s3
                   in (Inr (Body []), s4))))"

subsection \<open>Block resources\<close>

text \<open>
  twisted.web.resource.Resource keeps a dictionary of static children; its
  \<open>getChildWithDefault\<close> looks there first and calls \<open>getChild\<close> otherwise, and its own
  \<open>getChild\<close> answers the "no such child" resource.
\<close>

datatype resource = BlockRes res_id | CellRes cell_resource | NoResource

definition putChild :: "string \<Rightarrow> cell_resource \<Rightarrow> block_resource \<Rightarrow> block_resource" where
  "putChild path child r = r\<lparr>br_children := (br_children r)(path \<mapsto> child)\<rparr>"

definition Resource_getChild :: "res_id \<Rightarrow> string \<Rightarrow> request \<Rightarrow> state \<Rightarrow> resource \<times> state" where
  "Resource_getChild self name request s = (NoResource, s)"

text \<open>The loop of \<open>BlockResource.__init__\<close> over the items of \<open>block.state()\<close>.\<close>

fun init_cells :: "(string \<times> cell) list \<Rightarrow> block_resource \<Rightarrow> block_resource" where
  "init_cells [] r = r"
| "init_cells ((key, BlockCell c) # items) r =
     init_cells items (r\<lparr>br_blockCells := (br_blockCells r)(key \<mapsto> c)\<rparr>)"
| "init_cells ((key, ValueCell c) # items) r =
     init_cells items (putChild key \<lparr>cr_class = ValueCellResource, cr_cell = c\<rparr> r)"

text \<open>
  The constructor allocates the new resource object. A dynamic resource has no
  \<open>_blockCells\<close> attribute and no static children; they stay empty.
\<close>

definition BlockResource_init :: "block_id \<Rightarrow> deleter \<Rightarrow> state \<Rightarrow> res_id \<times> state" where
  "BlockResource_init block deleteSelf s =
     (let self = st_next s;
          dynamic = state_is_dynamic (st_world s) block;
          r0 = \<lparr>br_block = block, br_deleteSelf = deleteSelf, br_dynamic = dynamic,
                br_blockResourceCache = Map.empty, br_blockCells = Map.empty,
                br_children = Map.empty\<rparr>;
          r = (if \<not> dynamic then init_cells (block_state (st_world s) block) r0 else r0)
      in (self, s\<lparr>st_resources := (st_resources s)(self := r), st_next := Suc self\<rparr>))"

definition makeChildBlockResource :: "res_id \<Rightarrow> string \<Rightarrow> block_id \<Rightarrow> state \<Rightarrow> res_id \<times> state" where
  "makeChildBlockResource self name block s = BlockResource_init block (ChildDeleter self name) s"

definition cache_put :: "block_id \<Rightarrow> res_id \<Rightarrow> block_resource \<Rightarrow> block_resource" where
  "cache_put block r me = me\<lparr>br_blockResourceCache := (br_blockResourceCache me)(block \<mapsto> r)\<rparr>"

definition getBlockChild :: "res_id \<Rightarrow> string \<Rightarrow> block_id \<Rightarrow> state \<Rightarrow> res_id \<times> state" where
  "getBlockChild self name block s =
     (case br_blockResourceCache (st_resources s self) block of
        Some r \<Rightarrow> (r, s)
      | None \<Rightarrow>
          (case makeChildBlockResource self name block s of
             (r, s1) \<Rightarrow>
               (r, s1\<lparr>st_resources :=
                        (st_resources s1)(self := cache_put block r (st_resources s1 self))\<rparr>)))"

definition as_block_resource :: "res_id \<times> state \<Rightarrow> resource \<times> state" where
  "as_block_resource p = (BlockRes (fst p), snd p)"

definition getChild :: "res_id \<Rightarrow> string \<Rightarrow> request \<Rightarrow> state \<Rightarrow> resource \<times> state" where
  "getChild self name request s =
     (if br_dynamic (st_resources s self) then
        (let curstate = block_state (st_world s) (br_block (st_resources s self))
         in case map_of curstate name of
              Some (BlockCell c) \<Rightarrow>
                as_block_resource (getBlockChild self name (bcell_get (st_world s) c) s)
            | Some (ValueCell c) \<Rightarrow> Resource_getChild self name request s
            | None \<Rightarrow> Resource_getChild self name request s)
      else
        (case br_blockCells (st_resources s self) name of
           Some c \<Rightarrow> as_block_resource (getBlockChild self name (bcell_get (st_world s) c) s)
         | None \<Rightarrow> Resource_getChild self name request s))"

definition getChildWithDefault :: "res_id \<Rightarrow> string \<Rightarrow> request \<Rightarrow> state \<Rightarrow> resource \<times> state" where
  "getChildWithDefault self path request s =
     (case br_children (st_resources s self) path of
        Some child \<Rightarrow> (CellRes child, s)
      | None \<Rightarrow> getChild self path request s)"

text \<open>
  The cache is a \<open>weakref.WeakKeyDictionary\<close>: an entry whose key object has died may
  disappear at any moment. \<open>weak_collect live\<close> is the most a collection can remove: every
  entry whose key is not live, in every cache.
\<close>

definition weak_collect :: "(block_id \<Rightarrow> bool) \<Rightarrow> state \<Rightarrow> state" where
  "weak_collect live s =
     s\<lparr>st_resources := (\<lambda>r. (st_resources s r)\<lparr>br_blockResourceCache :=
          (\<lambda>b. if live b then br_blockResourceCache (st_resources s r) b else None)\<rparr>)\<rparr>"

text \<open>
  The block object that \<open>getChild\<close> hands to the identity cache for a name, when the
  name resolves to a block child at all.
\<close>

definition child_block :: "res_id \<Rightarrow> string \<Rightarrow> state \<Rightarrow> block_id option" where
  "child_block self name s =
     (if br_dynamic (st_resources s self) then
        (case map_of (block_state (st_world s) (br_block (st_resources s self))) name of
           Some (BlockCell c) \<Rightarrow> Some (bcell_get (st_world s) c)
         | Some (ValueCell c) \<Rightarrow> None
         | None \<Rightarrow> None)
      else
        (case br_blockCells (st_resources s self) name of
           Some c \<Rightarrow> Some (bcell_get (st_world s) c)
         | None \<Rightarrow> None))"

definition resourceDescription :: "collab \<Rightarrow> res_id \<Rightarrow> state \<Rightarrow> json" where
  "resourceDescription X self s = state_description X (st_world s) (br_block (st_resources s self))"


subsection \<open>The HTML element of a block\<close>

definition title :: "request \<Rightarrow> tag \<Rightarrow> tag" where
  "title request t = tag_call t [FList (map FStr (rq_prepath request))]"

definition quoted_state_url :: "collab \<Rightarrow> request \<Rightarrow> tag \<Rightarrow> tag" where
  "quoted_state_url X request t =
     tag_call t [FStr (serialize X (JStr (make_websocket_url X request (prepath_escaped X request))))]"

text \<open>
  Modelled from the spec: \<open>renderElement\<close> and the file block.template.xhtml are not part
  of the module. The document is the template with its title slot and its state URL slot
  filled by the element's renderers of these names, flattened to bytes.
\<close>

fun render_slots :: "collab \<Rightarrow> request \<Rightarrow> element \<Rightarrow> html_document" where
  "render_slots X request BlockHtmlElement =
     \<lparr>doc_title = title request (template_title X),
      doc_state_url = quoted_state_url X request (template_state_url X)\<rparr>"

definition renderElement :: "collab \<Rightarrow> request \<Rightarrow> element \<Rightarrow> string" where
  "renderElement X request el = flatten_document X (render_slots X request el)"

subsection \<open>GET, POST and DELETE on a block resource\<close>

text \<open>Python's \<open>needle in haystack\<close> on strings.\<close>

definition str_in :: "string \<Rightarrow> string \<Rightarrow> bool" where
  "str_in needle haystack = sublist needle haystack"

definition block_render_GET ::
  "collab \<Rightarrow> res_id \<Rightarrow> request \<Rightarrow> state \<Rightarrow> (exn + render_result) \<times> state" where
  "block_render_GET X self request s =
     (let accept = rq_getHeader request ''Accept''
      in if (case accept of None \<Rightarrow> False | Some a \<Rightarrow> str_in ''application/json'' a) then
           (let s1 = emit (SetHeader ''Content-Type'' ''application/json'') s
            in (Inr (Body (serialize X (resourceDescription X self s1))), s1))
         else
           (let s1 = emit (SetHeader ''Content-Type'' ''text/html;charset=utf-8'') s
            in (Inr (Body (renderElement X request BlockHtmlElement)), s1)))"

text \<open>
  \<open>urllib.quote(s, safe)\<close> of Python 2: a byte that is an ASCII letter, a digit, one of
  \<open>_.-\<close>, or listed in \<open>safe\<close> stays; every other byte becomes \<open>%\<close> and two upper-case
  hexadecimal digits.
\<close>

definition always_safe :: string where
  "always_safe = ''ABCDEFGHIJKLMNOPQRSTUVWXYZabcdefghijklmnopqrstuvwxyz0123456789_.-''"

definition hex_digit :: "nat \<Rightarrow> char" where
  "hex_digit n = ''0123456789ABCDEF'' ! (n mod 16)"

definition quote_char :: "string \<Rightarrow> char \<Rightarrow> string" where
  "quote_char safe c =
     (if c \<in> set always_safe \<or> c \<in> set safe then [c]
      else [CHR ''%'', hex_digit (of_char c div 16), hex_digit (of_char c mod 16)])"

definition quote :: "string \<Rightarrow> string \<Rightarrow> string" where
  "quote s safe = concat (map (quote_char safe) s)"

definition block_render_POST ::
  "collab \<Rightarrow> res_id \<Rightarrow> request \<Rightarrow> state \<Rightarrow> (exn + render_result) \<times> state" where
  "block_render_POST X self request s =
     (let block = br_block (st_resources s self)
      in if \<not> IWritableCollection_providedBy (st_world s) block then
           (Inl (Exception ''Block is not a writable collection''), s)
         else if rq_getHeader request ''Content-Type'' \<noteq> Some ''application/json'' then
           (Inl AssertionError, s)
         else
           (let s1 = emit ContentRead s
            in case json_loads X (rq_content request) of
                 None \<Rightarrow> (Inl ValueError, s1)
               | Some reqjson \<Rightarrow>
                   (case create_child X block reqjson (st_world s1) of
                      (Inl e, w) \<Rightarrow> (Inl e, s1\<lparr>st_world := w\<rparr>)
                    | (Inr key, w) \<Rightarrow>
                        (let s2 = emit (ChildCreated block key) (s1\<lparr>st_world := w\<rparr>);
                             s3 = note_dirty s2;
                             url = rq_prePathURL request @ ''/receivers/'' @ quote key [];
                             s4 = emit (SetResponseCode 201) s3;
                             s5 = emit (SetHeader ''Location'' url) s4
                         in (Inr (Body (serialize X (JStr url))), s5)))))"

text \<open>Calling a deletion closure.\<close>

fun deleter_call :: "collab \<Rightarrow> deleter \<Rightarrow> state \<Rightarrow> (exn + unit) \<times> state" where
  "deleter_call X (ChildDeleter parent name) s =
     (let block = br_block (st_resources s parent)
      in if \<not> IWritableCollection_providedBy (st_world s) block then
           (Inl (Exception ''Block is not a writable collection''), s)
         else
           (case delete_child X block name (st_world s) of
              (Inl e, w) \<Rightarrow> (Inl e, s\<lparr>st_world := w\<rparr>)
            | (Inr u, w) \<Rightarrow> (Inr (), emit (ChildDeleted block name) (s\<lparr>st_world := w\<rparr>))))"
| "deleter_call X GivenDeleter s =
     (case given_deleter X (st_world s) of (r, w) \<Rightarrow> (r, s\<lparr>st_world := w\<rparr>))"

definition block_render_DELETE ::
  "collab \<Rightarrow> res_id \<Rightarrow> request \<Rightarrow> state \<Rightarrow> (exn + render_result) \<times> state" where
  "block_render_DELETE X self request s =
     (case deleter_call X (br_deleteSelf (st_resources s self)) s of
        (Inl e, s1) \<Rightarrow> (Inl e, s1)
      | (Inr u, s1) \<Rightarrow>
          (let s2 = note_dirty s1;
               s3 = emit (SetResponseCode 204) s2
           in (Inr (Body []), s3)))"

subsection \<open>The image of the flow graph\<close>

definition flowgraph_render_GET ::
  "collab \<Rightarrow> block_id \<Rightarrow> request \<Rightarrow> state \<Rightarrow> (exn + render_result) \<times> state" where
  "flowgraph_render_GET X block request s =
     (let s1 = emit (SetHeader ''Content-Type'' ''image/png'') s;
          s2 = emit (SpawnProcess ''/usr/bin/env'' [''env'', ''dot'', ''-Tpng'']) s1;
          s3 = emit (PipeWrite 0 (dot_graph X (st_world s2) block)) s2;
          s4 = emit (PipeLoseConnection 0) s3
      in (Inr NOT_DONE_YET, s4))"

definition outReceived :: "string \<Rightarrow> state \<Rightarrow> state" where
  "outReceived data s = emit (ResponseWrite data) s"

definition outConnectionLost :: "state \<Rightarrow> state" where
  "outConnectionLost s = emit ResponseFinish s"

text \<open>
  What the reactor delivers to the process protocol: chunks of the subprocess's standard
  output, then the end of that stream.
\<close>

datatype process_event = OutReceived string | OutConnectionLost

fun deliver :: "process_event \<Rightarrow> state \<Rightarrow> state" where
  "deliver (OutReceived data) s = outReceived data s"
| "deliver OutConnectionLost s = outConnectionLost s"

fun deliver_all :: "process_event list \<Rightarrow> state \<Rightarrow> state" where
  "deliver_all [] s = s"
| "deliver_all (e # es) s = deliver_all es (deliver e s)"

section \<open>A small server\<close>

text \<open>
  The scenario of the specification: a static root block with a value cell \<open>volume\<close>
  (current value 5) and block cells \<open>tuner\<close> and \<open>receivers\<close>, the latter a dynamic
  block. It is the concrete input of the evaluations below.
\<close>

definition demo_loads :: "string \<Rightarrow> json option" where
  "demo_loads b =
     (if b = ''7'' then Some (JNum 7)
      else if b = ''[100]'' then Some (JArr [JNum 100])
      else None)"

fun demo_serialize :: "json \<Rightarrow> string" where
  "demo_serialize (JNum n) = (if n = 7 then ''7'' else ''5'')"
| "demo_serialize (JStr u) = CHR 0x22 # u @ [CHR 0x22]"
| "demo_serialize (JArr vs) = ''[100]''"
| "demo_serialize v = ''null''"

definition demo_create_child :: "block_id \<Rightarrow> json \<Rightarrow> world \<Rightarrow> (exn + string) \<times> world" where
  "demo_create_child b j w =
     (Inr ''a/1'',
      w\<lparr>w_blocks := (w_blocks w)
           (b := (w_blocks w b)\<lparr>b_state := b_state (w_blocks w b) @ [(''a/1'', BlockCell 3)]\<rparr>)\<rparr>)"

definition demo_delete_child :: "block_id \<Rightarrow> string \<Rightarrow> world \<Rightarrow> (exn + unit) \<times> world" where
  "demo_delete_child b name w =
     (Inr (),
      w\<lparr>w_blocks := (w_blocks w)
           (b := (w_blocks w b)\<lparr>b_state := filter (\<lambda>kc. fst kc \<noteq> name) (b_state (w_blocks w b))\<rparr>)\<rparr>)"

definition demo_X :: collab where
  "demo_X =
     \<lparr>json_loads = demo_loads, serialize = demo_serialize, py_str = demo_serialize,
      state_description = (\<lambda>w b. JArr (map (\<lambda>kc. JStr (fst kc)) (block_state w b))),
      create_child = demo_create_child, delete_child = demo_delete_child,
      given_deleter = (\<lambda>w. (Inl (Exception ''Attempt to delete session root''), w)),
      template_title = \<lparr>tg_children = []\<rparr>, template_state_url = \<lparr>tg_children = []\<rparr>,
      flatten_document = (\<lambda>d. ''<html/>''),
      dot_graph = (\<lambda>w b. ''digraph {}''),
      make_websocket_url = (\<lambda>rq p. ''ws://host/'' @ p),
      prepath_escaped = (\<lambda>rq. concat (rq_prepath rq))\<rparr>"

definition demo_block :: "block_id \<Rightarrow> block" where
  "demo_block b =
     (if b = 0 then
        \<lparr>b_state_is_dynamic = False,
         b_state = [(''volume'', ValueCell 0), (''tuner'', BlockCell 0), (''receivers'', BlockCell 1)],
         b_writable_collection = True\<rparr>
      else if b = 2 then
        \<lparr>b_state_is_dynamic = True, b_state = [(''a'', BlockCell 2)], b_writable_collection = False\<rparr>
      else \<lparr>b_state_is_dynamic = False, b_state = [], b_writable_collection = False\<rparr>)"

definition demo_world :: world where
  "demo_world =
     \<lparr>w_blocks = demo_block,
      w_vcells = (\<lambda>c. \<lparr>vc_value = JNum 5, vc_setter = Some\<rparr>),
      w_bcells = (\<lambda>c. if c = 0 then 1 else if c = 1 then 2 else if c = 2 then 3 else 4)\<rparr>"

definition demo_request :: request where
  "demo_request =
     \<lparr>rq_getHeader = (\<lambda>h. if h = ''Content-Type'' then Some ''application/json'' else None),
      rq_content = ''7'', rq_prepath = [''radio''], rq_prePathURL = ''http://host/radio''\<rparr>"

definition empty_resources :: "res_id \<Rightarrow> block_resource" where
  "empty_resources r =
     \<lparr>br_block = 0, br_deleteSelf = GivenDeleter, br_dynamic = False,
      br_blockResourceCache = Map.empty, br_blockCells = Map.empty, br_children = Map.empty\<rparr>"

definition demo_state :: state where
  "demo_state =
     snd (BlockResource_init 0 GivenDeleter
       \<lparr>st_world = demo_world, st_resources = empty_resources, st_next = 0, st_log = []\<rparr>)"

definition demo_tuner_state :: state where
  "demo_tuner_state = snd (getChild 0 ''tuner'' demo_request demo_state)"

definition demo_receivers_state :: state where
  "demo_receivers_state = snd (getChild 0 ''receivers'' demo_request demo_state)"

definition plain_request :: request where
  "plain_request =
     \<lparr>rq_getHeader = (\<lambda>h. if h = ''Content-Type'' then Some ''text/plain'' else None),
      rq_content = ''7'', rq_prepath = [''radio''], rq_prePathURL = ''http://host/radio''\<rparr>"

definition json_request :: request where
  "json_request =
     \<lparr>rq_getHeader = (\<lambda>h. if h = ''Accept'' then Some ''text/html, application/json'' else None),
      rq_content = [], rq_prepath = [''radio'', ''tuner''],
      rq_prePathURL = ''http://host/radio/tuner''\<rparr>"

definition demo_receiver_a_state :: state where
  "demo_receiver_a_state = snd (getChild 1 ''a'' demo_request demo_receivers_state)"

text \<open>
  The invariant of the identity caches: in every allocated resource, an entry of the cache
  leads from a block object to an allocated resource made for that very object.
\<close>

definition cache_sound :: "state \<Rightarrow> bool" where
  "cache_sound s =
     (\<forall>p b r. p < st_next s \<and> br_blockResourceCache (st_resources s p) b = Some r \<longrightarrow>
        r < st_next s \<and> br_block (st_resources s r) = b)"


definition demo_live :: "block_id \<Rightarrow> bool" where
  "demo_live b = (b \<noteq> 4)"



lemmas demo_defs = demo_state_def demo_world_def demo_block_def demo_X_def demo_request_def
  empty_resources_def demo_loads_def demo_create_child_def demo_delete_child_def

lemmas world_defs = vcell_get_def vcell_set_def bcell_get_def state_is_dynamic_def
  block_state_def IWritableCollection_providedBy_def

lemmas resolve_defs = getChildWithDefault_def getChild_def getBlockChild_def
  makeChildBlockResource_def BlockResource_init_def Resource_getChild_def as_block_resource_def
  cache_put_def putChild_def child_block_def Let_def

lemmas demo_states = demo_tuner_state_def demo_receivers_state_def demo_receiver_a_state_def

section \<open>Auxiliary facts\<close>

lemma init_cells_fields [simp]:
  "br_block (init_cells items r) = br_block r"
  "br_deleteSelf (init_cells items r) = br_deleteSelf r"
  "br_dynamic (init_cells items r) = br_dynamic r"
  "br_blockResourceCache (init_cells items r) = br_blockResourceCache r"
  by (induction items r rule: init_cells.induct) (simp_all add: putChild_def)

lemma hex_digit_safe: "hex_digit n \<in> set always_safe"
proof -
  have "n mod 16 < length ''0123456789ABCDEF''" by simp
  then have "hex_digit n \<in> set ''0123456789ABCDEF''"
    unfolding hex_digit_def by (rule nth_mem)
  then show ?thesis by (auto simp: always_safe_def)
qed

lemma quote_char_chars:
  "c' \<in> set (quote_char [] c) \<Longrightarrow> c' \<in> set always_safe \<or> c' = CHR ''%''"
  by (auto simp: quote_char_def hex_digit_safe split: if_splits)

lemma quote_chars: "c' \<in> set (quote key []) \<Longrightarrow> c' \<in> set always_safe \<or> c' = CHR ''%''"
  by (auto simp: quote_def dest: quote_char_chars)

lemma quote_no_slash: "CHR ''/'' \<notin> set (quote key [])"
proof
  assume "CHR ''/'' \<in> set (quote key [])"
  then have "CHR ''/'' \<in> set always_safe \<or> CHR ''/'' = CHR ''%''" by (rule quote_chars)
  then show False by (simp add: always_safe_def)
qed

lemma quote_demo_key: "quote ''a/1'' [] = ''a%2F1''"
  by (simp add: quote_def quote_char_def always_safe_def hex_digit_def)

lemma deliver_all_append: "deliver_all (es @ fs) s = deliver_all fs (deliver_all es s)"
  by (induction es arbitrary: s) simp_all

lemma deliver_all_chunks:
  "deliver_all (map OutReceived chunks) s = s\<lparr>st_log := st_log s @ map ResponseWrite chunks\<rparr>"
  by (induction chunks arbitrary: s) (simp_all add: outReceived_def emit_def)


lemma getChild_child_block:
  "child_block self name s = Some b \<Longrightarrow>
   getChild self name request s = as_block_resource (getBlockChild self name b s)"
  by (auto simp: child_block_def getChild_def Let_def split: if_splits option.splits cell.splits)

lemma getChild_no_child_block:
  "child_block self name s = None \<Longrightarrow> getChild self name request s = (NoResource, s)"
  by (auto simp: child_block_def getChild_def Let_def Resource_getChild_def
      split: if_splits option.splits cell.splits)

lemma getBlockChild_hit:
  "br_blockResourceCache (st_resources s self) b = Some r \<Longrightarrow>
   getBlockChild self name b s = (r, s)"
  by (simp add: getBlockChild_def)

lemma getBlockChild_miss:
  "br_blockResourceCache (st_resources s self) b = None \<Longrightarrow>
   fst (getBlockChild self name b s) = st_next s
   \<and> st_next (snd (getBlockChild self name b s)) = Suc (st_next s)
   \<and> st_world (snd (getBlockChild self name b s)) = st_world s
   \<and> st_log (snd (getBlockChild self name b s)) = st_log s
   \<and> br_blockResourceCache (st_resources (snd (getBlockChild self name b s)) self) b =
       Some (st_next s)"
  by (simp add: getBlockChild_def makeChildBlockResource_def BlockResource_init_def Let_def
      cache_put_def)


lemma getBlockChild_cached:
  "br_blockResourceCache (st_resources (snd (getBlockChild self name b s)) self) b =
     Some (fst (getBlockChild self name b s))"
proof (cases "br_blockResourceCache (st_resources s self) b")
  case None
  then show ?thesis using getBlockChild_miss [OF None, of name] by simp
next
  case (Some r)
  then show ?thesis by (simp add: getBlockChild_hit)
qed

lemma weak_collect_fields [simp]:
  "st_world (weak_collect live s) = st_world s"
  "st_next (weak_collect live s) = st_next s"
  "st_log (weak_collect live s) = st_log s"
  "br_block (st_resources (weak_collect live s) r) = br_block (st_resources s r)"
  "br_dynamic (st_resources (weak_collect live s) r) = br_dynamic (st_resources s r)"
  "br_blockCells (st_resources (weak_collect live s) r) = br_blockCells (st_resources s r)"
  "br_children (st_resources (weak_collect live s) r) = br_children (st_resources s r)"
  "br_deleteSelf (st_resources (weak_collect live s) r) = br_deleteSelf (st_resources s r)"
  "br_blockResourceCache (st_resources (weak_collect live s) r) b =
     (if live b then br_blockResourceCache (st_resources s r) b else None)"
  by (simp_all add: weak_collect_def)

lemma cache_sound_getBlockChild:
  assumes "cache_sound s" and "self < st_next s"
  shows "cache_sound (snd (getBlockChild self name b s))"
proof (cases "br_blockResourceCache (st_resources s self) b")
  case (Some r)
  then show ?thesis using assms by (simp add: getBlockChild_hit)
next
  case None
  show ?thesis
    using assms None
    unfolding cache_sound_def
    by (auto simp: getBlockChild_def makeChildBlockResource_def BlockResource_init_def Let_def
        cache_put_def less_Suc_eq split: if_splits)
qed



lemma demo_receivers_facts:
  "st_next demo_receivers_state = 2"
  "br_dynamic (st_resources demo_receivers_state (Suc 0))"
  "br_block (st_resources demo_receivers_state (Suc 0)) = 2"
  "br_blockResourceCache (st_resources demo_receivers_state (Suc 0)) = Map.empty"
  "br_blockResourceCache (st_resources demo_receivers_state 0) = [2 \<mapsto> Suc 0]"
  "br_block (st_resources demo_receivers_state 0) = 0"
  "st_world demo_receivers_state = demo_world"
  by (simp_all add: demo_states demo_state_def empty_resources_def demo_world_def demo_block_def
      demo_request_def world_defs resolve_defs)


lemma demo_child_block: "child_block (Suc 0) ''a'' demo_receivers_state = Some 3"
  by (simp add: child_block_def demo_receivers_facts block_state_def bcell_get_def demo_world_def
      demo_block_def)

lemma demo_first: "fst (getChild (Suc 0) ''a'' demo_request demo_receivers_state) = BlockRes 2"
  by (simp add: getChild_child_block [OF demo_child_block] as_block_resource_def
      getBlockChild_miss demo_receivers_facts)

lemma demo_first_fields:
  "br_dynamic (st_resources (snd (getChild (Suc 0) ''a'' demo_request demo_receivers_state)) (Suc 0))"
  "br_block (st_resources (snd (getChild (Suc 0) ''a'' demo_request demo_receivers_state)) (Suc 0)) = 2"
  by (simp_all add: getChild_child_block [OF demo_child_block] as_block_resource_def
      getBlockChild_def makeChildBlockResource_def BlockResource_init_def Let_def cache_put_def
      demo_receivers_facts)




text \<open>
  The invariant holds before any resource exists, and every operation of the module keeps
  it: the constructor, the resolution of a child, a collection of dead cache entries, and
  the handlers, which leave the resources alone.
\<close>

lemma cache_sound_cong:
  "st_resources s' = st_resources s \<Longrightarrow> st_next s' = st_next s \<Longrightarrow>
   cache_sound s' = cache_sound s"
  by (simp add: cache_sound_def)

lemma cache_sound_no_resources: "st_next s = 0 \<Longrightarrow> cache_sound s"
  by (simp add: cache_sound_def)

lemma cache_sound_init:
  assumes "cache_sound s"
  shows "cache_sound (snd (BlockResource_init b d s))"
  using assms unfolding cache_sound_def
  by (auto simp: BlockResource_init_def Let_def less_Suc_eq split: if_splits)

lemma cache_sound_getChild:
  assumes "cache_sound s" and "self < st_next s"
  shows "cache_sound (snd (getChild self name request s))"
proof (cases "child_block self name s")
  case None
  then show ?thesis using assms(1) by (simp add: getChild_no_child_block)
next
  case (Some b)
  then show ?thesis
    using cache_sound_getBlockChild [OF assms, of name b]
    by (simp add: getChild_child_block as_block_resource_def)
qed

lemma deleter_call_keeps_resources:
  "st_resources (snd (deleter_call X d s)) = st_resources s"
  "st_next (snd (deleter_call X d s)) = st_next s"
  by (cases d; auto simp: Let_def emit_def split: sum.splits prod.splits)+

lemma handlers_keep_resources:
  "st_resources (snd (cell_render_GET X cr request s)) = st_resources s"
  "st_next (snd (cell_render_GET X cr request s)) = st_next s"
  "st_resources (snd (cell_render_PUT X cr request s)) = st_resources s"
  "st_next (snd (cell_render_PUT X cr request s)) = st_next s"
  "st_resources (snd (block_render_GET X self request s)) = st_resources s"
  "st_next (snd (block_render_GET X self request s)) = st_next s"
  "st_resources (snd (block_render_POST X self request s)) = st_resources s"
  "st_next (snd (block_render_POST X self request s)) = st_next s"
  "st_resources (snd (flowgraph_render_GET X b request s)) = st_resources s"
  "st_next (snd (flowgraph_render_GET X b request s)) = st_next s"
  by (auto simp: cell_render_GET_def cell_render_PUT_def block_render_GET_def
      block_render_POST_def flowgraph_render_GET_def Let_def emit_def
      note_dirty_def
      split: sum.splits prod.splits option.splits if_splits)

lemma DELETE_keeps_resources:
  "st_resources (snd (block_render_DELETE X self request s)) = st_resources s"
  "st_next (snd (block_render_DELETE X self request s)) = st_next s"
  using deleter_call_keeps_resources [of X "br_deleteSelf (st_resources s self)" s]
  by (auto simp: block_render_DELETE_def Let_def emit_def note_dirty_def
      split: sum.splits prod.splits)

section \<open>Writing a value cell\<close>



section \<open>Reading back what was written\<close>

text \<open>
  Claim C5. On a value cell resource, when the body of a PUT is the serialization of a
  value \<open>v\<close>, the serializer inverts JSON parsing at \<open>v\<close> and the cell stores \<open>v\<close> as
  given, the PUT succeeds and a GET of the same resource afterwards returns a body that
  parses back to \<open>v\<close>.
\<close>

theorem PUT_GET_round_trip:
  assumes "cr_class self = ValueCellResource"
    and "rq_content request = serialize X v"
    and "json_loads X (serialize X v) = Some v"
    and "vc_setter (w_vcells (st_world s) (cr_cell self)) v = Some v"
  shows "fst (cell_render_PUT X self request s) = Inr (Body [])
         \<and> cell_render_GET X self request' (snd (cell_render_PUT X self request s)) =
             (Inr (Body (serialize X v)), snd (cell_render_PUT X self request s))
         \<and> grparse X (cr_class self) (serialize X v) = Inr v"
  using assms
  by (simp add: cell_render_PUT_def cell_render_GET_def vcell_set_def vcell_get_def emit_def
      note_dirty_def Let_def)

theorem PUT_GET_round_trip_witness:
  "rq_content demo_request = serialize demo_X (JNum 7)
   \<and> json_loads demo_X (serialize demo_X (JNum 7)) = Some (JNum 7)
   \<and> fst (cell_render_GET demo_X \<lparr>cr_class = ValueCellResource, cr_cell = 0\<rparr> json_request
        (snd (cell_render_PUT demo_X \<lparr>cr_class = ValueCellResource, cr_cell = 0\<rparr>
           demo_request demo_state))) = Inr (Body ''7'')
   \<and> json_loads demo_X ''7'' = Some (JNum 7)"
proof -
  let ?self = "\<lparr>cr_class = ValueCellResource, cr_cell = 0\<rparr>"
  have a: "cr_class ?self = ValueCellResource" by simp
  have b: "rq_content demo_request = serialize demo_X (JNum 7)"
    by (simp add: demo_request_def demo_X_def)
  have c: "json_loads demo_X (serialize demo_X (JNum 7)) = Some (JNum 7)"
    by (simp add: demo_X_def demo_loads_def)
  have d: "vc_setter (w_vcells (st_world demo_state) (cr_cell ?self)) (JNum 7) = Some (JNum 7)"
    by (simp add: demo_state_def BlockResource_init_def Let_def demo_world_def)
  have e: "serialize demo_X (JNum 7) = ''7''"
    by (simp add: demo_X_def)
  show ?thesis
    using PUT_GET_round_trip [OF a b c d, of json_request] b c e by simp
qed

section \<open>Creating and deleting children\<close>

text \<open>
  Claim C6. Every POST on a block resource that succeeds was made on a block providing
  the writable collection capability, parsed its body as JSON and created a child from
  it; its effects are, in this order: the body is read, the child is created,
  \<open>note_dirty\<close> is fired, the response code is set to 201 and the header \<open>Location\<close> is
  set to the request's base URL followed by the child-resource path \<open>/receivers/\<close> and
  the created key, each character of which went through URL escaping with no character
  declared safe; the body returned is the serialization of that same URL. The escaped
  key holds no \<open>/\<close>, so it is a single path segment. The resources are untouched.
\<close>

theorem POST_creates_child:
  assumes "block_render_POST X self request s = (Inr r, s')"
  shows "\<exists>reqjson key.
           IWritableCollection_providedBy (st_world s) (br_block (st_resources s self))
         \<and> json_loads X (rq_content request) = Some reqjson
         \<and> create_child X (br_block (st_resources s self)) reqjson (st_world s) =
             (Inr key, st_world s')
         \<and> r = Body (serialize X (JStr (rq_prePathURL request @ ''/receivers/'' @ quote key [])))
         \<and> st_log s' = st_log s @
             [ContentRead, ChildCreated (br_block (st_resources s self)) key, NoteDirty,
              SetResponseCode 201,
              SetHeader ''Location'' (rq_prePathURL request @ ''/receivers/'' @ quote key [])]
         \<and> CHR ''/'' \<notin> set (quote key [])
         \<and> st_resources s' = st_resources s"
  using assms
  by (auto simp: block_render_POST_def Let_def emit_def note_dirty_def quote_no_slash
      split: if_splits option.splits sum.splits prod.splits)

theorem POST_creates_child_witness:
  "block_render_POST demo_X 0 demo_request demo_state =
     (Inr (Body (CHR 0x22 # ''http://host/radio/receivers/a%2F1'' @ [CHR 0x22])),
      snd (block_render_POST demo_X 0 demo_request demo_state))
   \<and> (\<exists>key. st_log (snd (block_render_POST demo_X 0 demo_request demo_state)) =
         st_log demo_state @
           [ContentRead, ChildCreated (br_block (st_resources demo_state 0)) key, NoteDirty,
            SetResponseCode 201,
            SetHeader ''Location'' (rq_prePathURL demo_request @ ''/receivers/'' @ quote key [])])"
proof -
  have p: "block_render_POST demo_X 0 demo_request demo_state =
     (Inr (Body (CHR 0x22 # ''http://host/radio/receivers/a%2F1'' @ [CHR 0x22])),
      snd (block_render_POST demo_X 0 demo_request demo_state))"
    by (simp add: block_render_POST_def demo_defs world_defs resolve_defs emit_def
        note_dirty_def quote_demo_key)
  from POST_creates_child [OF p] obtain key where
    "st_log (snd (block_render_POST demo_X 0 demo_request demo_state)) =
       st_log demo_state @
         [ContentRead, ChildCreated (br_block (st_resources demo_state 0)) key, NoteDirty,
          SetResponseCode 201,
          SetHeader ''Location'' (rq_prePathURL demo_request @ ''/receivers/'' @ quote key [])]"
    by blast
  with p show ?thesis by blast
qed

text \<open>
  Claim C7. A POST on a block resource whose block does not provide the writable
  collection capability, and a DELETE on a block resource whose deletion closure was made
  by a parent whose block does not provide it, raise the generic exception and leave the
  whole state as it was: the model, the resources with their caches, and the log of
  effects (so no \<open>note_dirty\<close>). The closure that \<open>__makeChildBlockResource\<close> gives to a
  child is the one capturing the parent and the child's name.
\<close>

theorem capability_error_leaves_state:
  "(\<not> IWritableCollection_providedBy (st_world s) (br_block (st_resources s self)) \<longrightarrow>
      block_render_POST X self request s =
        (Inl (Exception ''Block is not a writable collection''), s))
   \<and> (br_deleteSelf (st_resources s self) = ChildDeleter parent name
        \<and> \<not> IWritableCollection_providedBy (st_world s) (br_block (st_resources s parent)) \<longrightarrow>
      block_render_DELETE X self request s =
        (Inl (Exception ''Block is not a writable collection''), s))
   \<and> br_deleteSelf (st_resources (snd (makeChildBlockResource parent name b s))
        (fst (makeChildBlockResource parent name b s))) = ChildDeleter parent name"
  by (simp add: block_render_POST_def block_render_DELETE_def Let_def
      makeChildBlockResource_def BlockResource_init_def)

theorem capability_error_leaves_state_witness:
  "\<not> IWritableCollection_providedBy (st_world demo_receivers_state)
        (br_block (st_resources demo_receivers_state 1))
   \<and> block_render_POST demo_X 1 demo_request demo_receivers_state =
        (Inl (Exception ''Block is not a writable collection''), demo_receivers_state)
   \<and> br_deleteSelf (st_resources demo_receiver_a_state 2) = ChildDeleter 1 ''a''
   \<and> \<not> IWritableCollection_providedBy (st_world demo_receiver_a_state)
        (br_block (st_resources demo_receiver_a_state 1))
   \<and> block_render_DELETE demo_X 2 demo_request demo_receiver_a_state =
        (Inl (Exception ''Block is not a writable collection''), demo_receiver_a_state)"
proof -
  have a: "\<not> IWritableCollection_providedBy (st_world demo_receivers_state)
        (br_block (st_resources demo_receivers_state 1))"
    by (simp add: demo_states demo_defs world_defs resolve_defs)
  have b: "br_deleteSelf (st_resources demo_receiver_a_state 2) = ChildDeleter 1 ''a''"
    by (simp add: demo_states demo_defs world_defs resolve_defs)
  have c: "\<not> IWritableCollection_providedBy (st_world demo_receiver_a_state)
        (br_block (st_resources demo_receiver_a_state 1))"
    by (simp add: demo_states demo_defs world_defs resolve_defs)
  show ?thesis
    using capability_error_leaves_state [of demo_receivers_state 1 demo_X demo_request]
      capability_error_leaves_state [of demo_receiver_a_state 2 demo_X demo_request 1 "''a''"]
      a b c
    by simp
qed

section \<open>Rendering a block\<close>



section \<open>Streaming the image of the flow graph\<close>

text \<open>
  Claim C9. A GET on the flow graph resource returns \<open>NOT_DONE_YET\<close> after these effects,
  in this order: the content type \<open>image/png\<close> is set, the subprocess is spawned, the
  block's graph description is written to its standard input, and that pipe is closed.
  Whatever chunks the subprocess then writes to its standard output are written to the
  response one by one in the order of their arrival, and nothing else happens; the
  response is finished by the end of the output stream, as the last effect.
\<close>

theorem flowgraph_streams_in_order:
  "fst (flowgraph_render_GET X block request s) = Inr NOT_DONE_YET
   \<and> st_log (deliver_all (map OutReceived chunks) (snd (flowgraph_render_GET X block request s))) =
       st_log s @
         [SetHeader ''Content-Type'' ''image/png'',
          SpawnProcess ''/usr/bin/env'' [''env'', ''dot'', ''-Tpng''],
          PipeWrite 0 (dot_graph X (st_world s) block),
          PipeLoseConnection 0]
         @ map ResponseWrite chunks
   \<and> st_log (deliver_all (map OutReceived chunks @ [OutConnectionLost])
        (snd (flowgraph_render_GET X block request s))) =
       st_log s @
         [SetHeader ''Content-Type'' ''image/png'',
          SpawnProcess ''/usr/bin/env'' [''env'', ''dot'', ''-Tpng''],
          PipeWrite 0 (dot_graph X (st_world s) block),
          PipeLoseConnection 0]
         @ map ResponseWrite chunks @ [ResponseFinish]"
  by (simp add: flowgraph_render_GET_def Let_def deliver_all_append deliver_all_chunks
      outConnectionLost_def emit_def)

section \<open>The content type of a POST\<close>

text \<open>
  Claim C10, as stated, fails: the assertion on the content type comes after the test of
  the writable collection capability, so a POST with another content type on a block
  without that capability does not fail on the assertion but on the capability test.
\<close>

theorem POST_content_type_counterexample:
  "rq_getHeader plain_request ''Content-Type'' = Some ''text/plain''
   \<and> block_render_POST demo_X 1 plain_request demo_tuner_state =
       (Inl (Exception ''Block is not a writable collection''), demo_tuner_state)
   \<and> fst (block_render_POST demo_X 1 plain_request demo_tuner_state) \<noteq> Inl AssertionError"
  by (simp add: block_render_POST_def plain_request_def demo_states demo_defs world_defs
      resolve_defs)

text \<open>
  Claim C10, amended. On a block resource whose block provides the writable collection
  capability, a POST whose \<open>Content-Type\<close> header is missing or is not exactly
  \<open>application/json\<close> fails on the assertion with the state unchanged: the body is not
  read, no child is created, \<open>note_dirty\<close> is not fired. With exactly that header the
  assertion passes and the next effect is the reading of the body.
\<close>

theorem POST_asserts_content_type:
  assumes "IWritableCollection_providedBy (st_world s) (br_block (st_resources s self))"
  shows "(rq_getHeader request ''Content-Type'' \<noteq> Some ''application/json'' \<longrightarrow>
            block_render_POST X self request s = (Inl AssertionError, s))
         \<and> (rq_getHeader request ''Content-Type'' = Some ''application/json'' \<longrightarrow>
            prefix (st_log s @ [ContentRead]) (st_log (snd (block_render_POST X self request s))))"
  using assms
  by (auto simp: block_render_POST_def Let_def emit_def note_dirty_def
      split: option.splits sum.splits prod.splits)

theorem POST_asserts_content_type_witness:
  "IWritableCollection_providedBy (st_world demo_state) (br_block (st_resources demo_state 0))
   \<and> rq_getHeader plain_request ''Content-Type'' \<noteq> Some ''application/json''
   \<and> block_render_POST demo_X 0 plain_request demo_state = (Inl AssertionError, demo_state)
   \<and> rq_getHeader demo_request ''Content-Type'' = Some ''application/json''
   \<and> prefix (st_log demo_state @ [ContentRead])
        (st_log (snd (block_render_POST demo_X 0 demo_request demo_state)))"
proof -
  have w: "IWritableCollection_providedBy (st_world demo_state)
      (br_block (st_resources demo_state 0))"
    by (simp add: demo_defs world_defs resolve_defs)
  have a: "rq_getHeader plain_request ''Content-Type'' \<noteq> Some ''application/json''"
    by (simp add: plain_request_def)
  have b: "rq_getHeader demo_request ''Content-Type'' = Some ''application/json''"
    by (simp add: demo_request_def)
  show ?thesis
    using POST_asserts_content_type [OF w, of plain_request demo_X]
      POST_asserts_content_type [OF w, of demo_request demo_X] w a b
    by simp
qed

section \<open>The identity cache\<close>

text \<open>
  Claim C1. Let a name resolve, from a block resource, to a child block object \<open>b\<close>, and
  let it resolve to the same object \<open>b\<close> again at the next resolution, \<open>b\<close> being alive
  in between (the weak dictionary may have dropped any entry of a dead key meanwhile, and
  the model may have changed otherwise). Then the second resolution returns the very
  child resource that the first returned, and returns the state as it found it: it hit
  the cache and constructed nothing.
\<close>

theorem getChild_identity_stable:
  assumes "child_block self name s = Some b"
    and "live b"
    and "child_block self name ((weak_collect live (snd (getChild self name request s)))\<lparr>st_world := w\<rparr>)
           = Some b"
  shows "getChild self name request'
           ((weak_collect live (snd (getChild self name request s)))\<lparr>st_world := w\<rparr>) =
         (fst (getChild self name request s),
          (weak_collect live (snd (getChild self name request s)))\<lparr>st_world := w\<rparr>)
         \<and> (\<exists>r. fst (getChild self name request s) = BlockRes r)"
proof -
  let ?s1 = "snd (getChild self name request s)"
  let ?s2 = "(weak_collect live ?s1)\<lparr>st_world := w\<rparr>"
  let ?r = "fst (getBlockChild self name b s)"
  have g1: "getChild self name request s = as_block_resource (getBlockChild self name b s)"
    using assms(1) by (rule getChild_child_block)
  then have s1: "?s1 = snd (getBlockChild self name b s)"
    and r1: "fst (getChild self name request s) = BlockRes ?r"
    by (simp_all add: as_block_resource_def)
  have "br_blockResourceCache (st_resources ?s1 self) b = Some ?r"
    unfolding s1 by (rule getBlockChild_cached)
  with assms(2) have "br_blockResourceCache (st_resources ?s2 self) b = Some ?r"
    by simp
  then have "getBlockChild self name b ?s2 = (?r, ?s2)"
    by (rule getBlockChild_hit)
  moreover have "getChild self name request' ?s2 = as_block_resource (getBlockChild self name b ?s2)"
    using assms(3) by (rule getChild_child_block)
  ultimately show ?thesis
    using r1 by (simp add: as_block_resource_def)
qed

theorem getChild_identity_stable_witness:
  "child_block (Suc 0) ''a'' demo_receivers_state = Some 3 \<and> demo_live 3
   \<and> fst (getChild (Suc 0) ''a'' demo_request demo_receivers_state) = BlockRes 2
   \<and> fst (getChild (Suc 0) ''a'' json_request
        ((weak_collect demo_live (snd (getChild (Suc 0) ''a'' demo_request demo_receivers_state)))
           \<lparr>st_world := demo_world\<rparr>)) = BlockRes 2"
proof -
  have l: "demo_live 3" by (simp add: demo_live_def)
  have c: "child_block (Suc 0) ''a''
      ((weak_collect demo_live (snd (getChild (Suc 0) ''a'' demo_request demo_receivers_state)))
         \<lparr>st_world := demo_world\<rparr>) = Some 3"
    by (simp add: child_block_def demo_first_fields block_state_def bcell_get_def demo_world_def
        demo_block_def)
  show ?thesis
    using getChild_identity_stable [OF demo_child_block l c, of json_request] demo_child_block l
      demo_first
    by simp
qed



section \<open>Resolving a child\<close>



end
